theory Spec2Isabelle
  imports Complex_Main
begin

section \<open>Documents\<close>

text \<open>
  The webhook handler of \<^verbatim>\<open>src/src/mapper.js\<close> (the part that creates the express
  application) receives a parsed JSON body, maps its \<^verbatim>\<open>payload\<close> member with the
  compiled JSONata expression of the Stripe provider, validates the mapped document with
  the compiled Ajv validator of \<^verbatim>\<open>src/src/validator.js\<close> and answers with a status
  code and a JSON body.

  A JSON value, as \<^verbatim>\<open>JSON.parse\<close> builds it.  A finite number is \<open>JNum\<close> of its
  exact value (the rounding of doubles is not modelled).  A number literal beyond the
  range of doubles, such as \<^verbatim>\<open>1e400\<close>, is read as \<^verbatim>\<open>Infinity\<close>, or \<^verbatim>\<open>-Infinity\<close>
  with a minus sign; \<^verbatim>\<open>NaN\<close> is never read but is what dividing zero by zero gives.
  An object is the list of its members in insertion order, read with \<open>map_of\<close>; its
  keys are distinct, as \<^verbatim>\<open>JSON.parse\<close> leaves them.
  JavaScript's \<^verbatim>\<open>undefined\<close> is not a JSON value: a place that may hold it has type
  \<open>json option\<close>.
\<close>

datatype json =
    JNull
  | JBool bool
  | JNum rat
  | JInfinity
  | JNegInfinity
  | JNaN
  | JStr string
  | JArr "json list"
  | JObj "(string \<times> json) list"

text \<open>Errors thrown while a request is handled; the handler reads only \<^verbatim>\<open>err.message\<close>.\<close>

datatype js_error =
    TypeError string
  | JsonataError string string

fun message_of :: "js_error \<Rightarrow> string" where
  "message_of (TypeError m) = m"
| "message_of (JsonataError code m) = m"

section \<open>The JSONata evaluator, for the constructs the Stripe mapping uses\<close>

text \<open>
  The result of evaluating a JSONata expression: nothing (\<^verbatim>\<open>undefined\<close>), one JSON value,
  or a result sequence (an array flagged \<^verbatim>\<open>sequence\<close> by \<^verbatim>\<open>createSequence\<close>).
\<close>

datatype jresult =
    Undefined
  | Value json
  | Sequence "json list"

text \<open>
  \<^verbatim>\<open>fn.lookup(input, key)\<close>: on an array it looks the key up in every element and
  appends what it finds, spreading arrays by one level; on an object it reads the member;
  on anything else it finds nothing.
\<close>

fun spread :: "jresult \<Rightarrow> json list" where
  "spread Undefined = []"
| "spread (Value (JArr ys)) = ys"
| "spread (Value v) = [v]"
| "spread (Sequence ys) = ys"

fun lookup :: "json \<Rightarrow> string \<Rightarrow> jresult" where
  "lookup (JArr xs) key = Sequence (concat (map (\<lambda>x. spread (lookup x key)) xs))"
| "lookup (JObj kvs) key = (case map_of kvs key of None \<Rightarrow> Undefined | Some v \<Rightarrow> Value v)"
| "lookup JNull key = Undefined"
| "lookup (JBool b) key = Undefined"
| "lookup (JNum n) key = Undefined"
| "lookup JInfinity key = Undefined"
| "lookup JNegInfinity key = Undefined"
| "lookup JNaN key = Undefined"
| "lookup (JStr s) key = Undefined"

text \<open>
  The end of \<^verbatim>\<open>evaluate\<close>: an empty result sequence is \<^verbatim>\<open>undefined\<close>, a singleton
  sequence is its only element.
\<close>

fun collapse :: "jresult \<Rightarrow> jresult" where
  "collapse (Sequence []) = Undefined"
| "collapse (Sequence [v]) = Value v"
| "collapse r = r"

text \<open>\<^verbatim>\<open>evaluateName\<close> on one context item, which is \<^verbatim>\<open>undefined\<close> when the payload is.\<close>

fun evaluateName :: "string \<Rightarrow> json option \<Rightarrow> jresult" where
  "evaluateName key None = Undefined"
| "evaluateName key (Some x) = collapse (lookup x key)"

text \<open>
  \<^verbatim>\<open>evaluateStep\<close>: the step is evaluated on every item of the input sequence and the
  defined results are kept (\<open>stepResults\<close>).  On the last step a single result that is
  a plain array is returned as it is; otherwise the results are flattened into one
  sequence.
\<close>

definition stepResults :: "string \<Rightarrow> json option list \<Rightarrow> jresult list" where
  "stepResults key input = filter (\<lambda>r. r \<noteq> Undefined) (map (evaluateName key) input)"

fun evaluateStep :: "string \<Rightarrow> json option list \<Rightarrow> bool \<Rightarrow> jresult" where
  "evaluateStep key input lastStep =
     (case stepResults key input of
        [Value (JArr ys)] \<Rightarrow>
          if lastStep then Value (JArr ys) else Sequence ys
      | result \<Rightarrow> Sequence (concat (map spread result)))"

text \<open>
  \<^verbatim>\<open>evaluatePath\<close>: an array input is its own input sequence, anything else is wrapped
  in a singleton sequence; the steps run in turn, each on the result of the one before,
  and the loop stops as soon as a step yields nothing.
\<close>

definition inputSequence :: "json option \<Rightarrow> json option list" where
  "inputSequence input = (case input of Some (JArr xs) \<Rightarrow> map Some xs | _ \<Rightarrow> [input])"

fun evaluateSteps :: "string list \<Rightarrow> json option list \<Rightarrow> jresult" where
  "evaluateSteps [] input = Sequence []"
| "evaluateSteps [key] input = evaluateStep key input True"
| "evaluateSteps (key # keys) input =
     (case evaluateStep key input False of
        Sequence [] \<Rightarrow> Sequence []
      | Sequence ys \<Rightarrow> evaluateSteps keys (map Some ys)
      | r \<Rightarrow> r)"

definition evaluatePath :: "string list \<Rightarrow> json option \<Rightarrow> jresult" where
  "evaluatePath steps input = collapse (evaluateSteps steps (inputSequence input))"

text \<open>
  \<^verbatim>\<open>String.prototype.toUpperCase\<close> on ASCII strings: the letters a to z are mapped, every
  other character is kept.  JavaScript also maps letters outside ASCII; strings with
  such letters are outside this model.
\<close>

definition upper_char :: "char \<Rightarrow> char" where
  "upper_char c =
     (case map_of (zip ''abcdefghijklmnopqrstuvwxyz'' ''ABCDEFGHIJKLMNOPQRSTUVWXYZ'') c of
        None \<Rightarrow> c
      | Some u \<Rightarrow> u)"

definition toUpperCase :: "string \<Rightarrow> string" where
  "toUpperCase s = map upper_char s"

text \<open>
  The expressions: a path of names, a string or number literal, a call of
  \<^verbatim>\<open>$uppercase\<close>, and a division.
\<close>

datatype expr =
    Path "string list"
  | StringLit string
  | NumberLit rat
  | Uppercase expr
  | Divide expr expr

definition T0410 :: js_error where
  "T0410 = JsonataError ''T0410''
     ''Argument 1 of function \"uppercase\" does not match function signature''"

definition T2001 :: js_error where
  "T2001 = JsonataError ''T2001''
     ''The left side of the \"/\" operator must evaluate to a number''"

definition T2002 :: js_error where
  "T2002 = JsonataError ''T2002''
     ''The right side of the \"/\" operator must evaluate to a number''"

definition D1001 :: js_error where
  "D1001 = JsonataError ''D1001'' ''Number out of range: null''"

definition D1009 :: js_error where
  "D1009 = JsonataError ''D1009'' ''Multiple key definitions evaluate to same key''"

text \<open>
  \<^verbatim>\<open>isNumeric(n)\<close>: true of a finite number, false of \<^verbatim>\<open>NaN\<close> and of whatever is
  not a number; on an infinite number it throws D1001.
\<close>

fun isNumeric :: "jresult \<Rightarrow> js_error + bool" where
  "isNumeric (Value (JNum n)) = Inr True"
| "isNumeric (Value JInfinity) = Inl D1001"
| "isNumeric (Value JNegInfinity) = Inl D1001"
| "isNumeric r = Inr False"

text \<open>
  The test of one operand, \<^verbatim>\<open>typeof x !== 'undefined' && !isNumeric(x)\<close>, with the
  error to throw when it holds: the error thrown, if any.
\<close>

definition operand_error :: "jresult \<Rightarrow> js_error \<Rightarrow> js_error option" where
  "operand_error x err =
     (if x = Undefined then None
      else (case isNumeric x of
              Inl thrown \<Rightarrow> Some thrown
            | Inr numeric \<Rightarrow> if numeric then None else Some err))"

text \<open>
  The quotient of two finite numbers.  By zero it is an infinity with the sign of the
  dividend, or \<^verbatim>\<open>NaN\<close> for a zero dividend (the model has one zero, JavaScript has a
  negative one too).  Rounding and overflow of the quotient are not modelled; the Stripe
  mapping divides by the literal 100, which cannot overflow.
\<close>

definition quotient :: "rat \<Rightarrow> rat \<Rightarrow> json" where
  "quotient a b =
     (if b \<noteq> 0 then JNum (a / b)
      else if a = 0 then JNaN
      else if 0 < a then JInfinity
      else JNegInfinity)"

text \<open>
  \<^verbatim>\<open>evaluateNumericExpression\<close> for \<^verbatim>\<open>/\<close>: a defined operand that is not a number is
  an error (the left one is tested first), an undefined operand makes the result
  undefined, and two numbers are divided.
\<close>

fun evaluateNumericExpression :: "jresult \<Rightarrow> jresult \<Rightarrow> js_error + jresult" where
  "evaluateNumericExpression lhs rhs =
     (case operand_error lhs T2001 of
        Some err \<Rightarrow> Inl err
      | None \<Rightarrow>
          (case operand_error rhs T2002 of
             Some err \<Rightarrow> Inl err
           | None \<Rightarrow>
               (case (lhs, rhs) of
                  (Value (JNum a), Value (JNum b)) \<Rightarrow> Inr (Value (quotient a b))
                | _ \<Rightarrow> Inr Undefined)))"

text \<open>
  \<^verbatim>\<open>$uppercase\<close> has the signature \<^verbatim>\<open><s-:s>\<close>: an undefined argument gives an
  undefined result, a string is upper-cased, any other argument is a signature error.
\<close>

fun uppercase :: "jresult \<Rightarrow> js_error + jresult" where
  "uppercase Undefined = Inr Undefined"
| "uppercase (Value (JStr s)) = Inr (Value (JStr (toUpperCase s)))"
| "uppercase r = Inl T0410"

fun evaluate :: "expr \<Rightarrow> json option \<Rightarrow> js_error + jresult" where
  "evaluate (Path steps) input = Inr (evaluatePath steps input)"
| "evaluate (StringLit s) input = Inr (Value (JStr s))"
| "evaluate (NumberLit n) input = Inr (Value (JNum n))"
| "evaluate (Uppercase e) input =
     (case evaluate e input of Inl err \<Rightarrow> Inl err | Inr arg \<Rightarrow> uppercase arg)"
| "evaluate (Divide l r) input =
     (case evaluate l input of
        Inl err \<Rightarrow> Inl err
      | Inr lhs \<Rightarrow>
          (case evaluate r input of
             Inl err \<Rightarrow> Inl err
           | Inr rhs \<Rightarrow> evaluateNumericExpression lhs rhs))"

text \<open>
  The object constructor (\<^verbatim>\<open>evaluateGroupExpression\<close>) with literal keys, on the single
  input document of a top-level expression: every value expression is evaluated on the
  input, and a key whose value is undefined is left out of the result object.  A result
  sequence is stored as the array it is.  Two equal keys are the error D1009.  When more
  than one value expression throws, the error reported here is the first in the order of
  the keys, as in jsonata 1.x; jsonata 2.x starts all evaluations together and reports
  the one that throws first.  The sources do not fix the version, and the two agree
  whenever at most one value expression throws.
\<close>

fun result_json :: "jresult \<Rightarrow> json option" where
  "result_json Undefined = None"
| "result_json (Value v) = Some v"
| "result_json (Sequence vs) = Some (JArr vs)"

definition stored :: "string \<Rightarrow> jresult \<Rightarrow> (string \<times> json) list" where
  "stored key r = (case result_json r of None \<Rightarrow> [] | Some v \<Rightarrow> [(key, v)])"

fun evaluatePairs :: "(string \<times> expr) list \<Rightarrow> json option \<Rightarrow> js_error + (string \<times> json) list" where
  "evaluatePairs [] input = Inr []"
| "evaluatePairs ((key, e) # pairs) input =
     (case evaluate e input of
        Inl err \<Rightarrow> Inl err
      | Inr v \<Rightarrow>
          (case evaluatePairs pairs input of
             Inl err \<Rightarrow> Inl err
           | Inr members \<Rightarrow> Inr (stored key v @ members)))"

definition evaluateGroupExpression :: "(string \<times> expr) list \<Rightarrow> json option \<Rightarrow> js_error + json" where
  "evaluateGroupExpression pairs input =
     (if \<not> distinct (map fst pairs) then Inl D1009
      else (case evaluatePairs pairs input of
              Inl err \<Rightarrow> Inl err
            | Inr members \<Rightarrow> Inr (JObj members)))"

section \<open>The Stripe mapping\<close>

text \<open>
  Modelled from the spec: the mapping expression \<^verbatim>\<open>src/providers/stripe.jsonata\<close>, read
  and compiled when the module is loaded, is not among the sources.  The spec's valid
  Stripe dispute fixes what it computes: \<open>transaction_id\<close> and \<open>reason\<close> are the charge
  and the reason of the dispute object, \<open>currency\<close> is its currency upper-cased,
  \<open>amount\<close> is its amount divided by 100, and \<open>provider\<close> is the literal \<open>stripe\<close>.
\<close>

definition stripeExpression :: "(string \<times> expr) list" where
  "stripeExpression =
     [(''transaction_id'', Path [''data'', ''object'', ''charge'']),
      (''reason'', Path [''data'', ''object'', ''reason'']),
      (''currency'', Uppercase (Path [''data'', ''object'', ''currency''])),
      (''amount'', Divide (Path [''data'', ''object'', ''amount'']) (NumberLit 100)),
      (''provider'', StringLit ''stripe'')]"

text \<open>\<^verbatim>\<open>mapStripe(payload)\<close>: \<^verbatim>\<open>stripeExpression.evaluate(payload)\<close>.\<close>

definition mapStripe :: "json option \<Rightarrow> js_error + json" where
  "mapStripe payload = evaluateGroupExpression stripeExpression payload"

section \<open>The schema validator\<close>

text \<open>
  An error object of Ajv: where in the document, which keyword of the schema, its
  parameter, and the message.
\<close>

record violation =
  instancePath :: string
  schemaPath :: string
  keyword :: string
  params :: "string \<times> string"
  message :: string

datatype jtype = TString | TNumber | TBoolean

fun type_name :: "jtype \<Rightarrow> string" where
  "type_name TString = ''string''"
| "type_name TNumber = ''number''"
| "type_name TBoolean = ''boolean''"

text \<open>
  The type tests of the generated code: \<^verbatim>\<open>typeof data == "string"\<close>,
  \<^verbatim>\<open>typeof data == "number" && isFinite(data)\<close>, \<^verbatim>\<open>typeof data == "boolean"\<close>.
\<close>

fun has_type :: "json \<Rightarrow> jtype \<Rightarrow> bool" where
  "has_type (JStr s) TString = True"
| "has_type (JNum n) TNumber = True"
| "has_type (JBool b) TBoolean = True"
| "has_type v t = False"

text \<open>An object schema: \<^verbatim>\<open>type: "object"\<close> with \<^verbatim>\<open>required\<close> and typed \<^verbatim>\<open>properties\<close>.\<close>

record object_schema =
  required :: "string list"
  properties :: "(string \<times> jtype) list"

text \<open>
  Modelled from the spec: \<^verbatim>\<open>schema/chargeback.schema.json\<close> is not among the sources.
  The spec's table of the normalized record gives the five required fields and their
  types, in this order.
\<close>

definition schema :: object_schema where
  "schema = \<lparr> required = [''transaction_id'', ''reason'', ''currency'', ''amount'', ''provider''],
              properties = [(''transaction_id'', TString), (''reason'', TString),
                            (''currency'', TString), (''amount'', TNumber),
                            (''provider'', TString)] \<rparr>"

definition quoted :: "string \<Rightarrow> string" where
  "quoted s = [CHR 0x27] @ s @ [CHR 0x27]"

definition required_error :: "string \<Rightarrow> violation" where
  "required_error missing =
     \<lparr> instancePath = [], schemaPath = ''#/required'', keyword = ''required'',
       params = (''missingProperty'', missing),
       message = ''must have required property '' @ quoted missing \<rparr>"

definition type_error :: "string \<Rightarrow> string \<Rightarrow> string \<Rightarrow> violation" where
  "type_error path spath t =
     \<lparr> instancePath = path, schemaPath = spath, keyword = ''type'',
       params = (''type'', t), message = ''must be '' @ t \<rparr>"

definition property_type_error :: "string \<Rightarrow> jtype \<Rightarrow> violation" where
  "property_type_error k t =
     type_error (''/'' @ k) (''#/properties/'' @ k @ ''/type'') (type_name t)"

definition root_type_error :: violation where
  "root_type_error = type_error [] ''#/type'' ''object''"

text \<open>
  The validation function that \<^verbatim>\<open>ajv.compile\<close> generates for an instance made with
  \<^verbatim>\<open>new Ajv()\<close>, that is with \<^verbatim>\<open>allErrors\<close> off: it returns at the first failing
  keyword with that one error.  For an object the required properties are tested in
  their order and the first missing one is reported; only then the properties that are
  present are type-checked, in their order.
\<close>

fun first_missing :: "string list \<Rightarrow> (string \<times> json) list \<Rightarrow> string option" where
  "first_missing [] members = None"
| "first_missing (k # ks) members =
     (case map_of members k of None \<Rightarrow> Some k | Some v \<Rightarrow> first_missing ks members)"

fun first_mismatch :: "(string \<times> jtype) list \<Rightarrow> (string \<times> json) list \<Rightarrow> violation option" where
  "first_mismatch [] members = None"
| "first_mismatch ((k, t) # ps) members =
     (case map_of members k of
        None \<Rightarrow> first_mismatch ps members
      | Some v \<Rightarrow>
          if has_type v t then first_mismatch ps members
          else Some (property_type_error k t))"

fun validate :: "object_schema \<Rightarrow> json \<Rightarrow> violation list option" where
  "validate sch (JObj members) =
     (case first_missing (required sch) members of
        Some k \<Rightarrow> Some [required_error k]
      | None \<Rightarrow>
          (case first_mismatch (properties sch) members of
             Some e \<Rightarrow> Some [e]
           | None \<Rightarrow> None))"
| "validate sch d = Some [root_type_error]"

text \<open>
  The compiled function is given a reference to the document, and with some options of
  the Ajv instance it writes to it.  Of the options that write (\<^verbatim>\<open>removeAdditional\<close>,
  \<^verbatim>\<open>useDefaults\<close>, \<^verbatim>\<open>coerceTypes\<close>), \<^verbatim>\<open>removeAdditional: "all"\<close> is modelled: the code
  generated for \<^verbatim>\<open>properties\<close>, reached once the required properties are all there,
  first deletes every member of the document that the schema does not list.
  \<^verbatim>\<open>useDefaults\<close> has nothing to insert for a schema without defaults.
  \<^verbatim>\<open>new Ajv()\<close> sets none of them.
\<close>

record ajv_options =
  removeAdditional :: bool

definition Ajv :: ajv_options where
  "Ajv = \<lparr> removeAdditional = False \<rparr>"

definition listed :: "object_schema \<Rightarrow> (string \<times> json) list \<Rightarrow> (string \<times> json) list" where
  "listed sch members = filter (\<lambda>(k, v). k \<in> set (map fst (properties sch))) members"

fun after_validation :: "ajv_options \<Rightarrow> object_schema \<Rightarrow> json \<Rightarrow> json" where
  "after_validation opts sch (JObj members) =
     (if removeAdditional opts \<and> first_missing (required sch) members = None
      then JObj (listed sch members)
      else JObj members)"
| "after_validation opts sch d = d"

text \<open>
  \<^verbatim>\<open>ajv.compile(schema)\<close>.  The compiled function is also an object: each call stores
  its errors (or \<^verbatim>\<open>null\<close>) in its \<^verbatim>\<open>errors\<close> property, which stays there until the
  next call.  The result of a call is the verdict together with the document as the call
  leaves it, since the caller holds the same reference.
\<close>

record validate_fn =
  errors :: "violation list option"

definition compile :: "ajv_options \<Rightarrow> object_schema \<Rightarrow> json \<Rightarrow> validate_fn \<Rightarrow> (bool \<times> json) \<times> validate_fn" where
  "compile opts sch data v =
     (let vErrors = validate sch data
      in ((vErrors = None, after_validation opts sch data), v\<lparr> errors := vErrors \<rparr>))"

text \<open>\<^verbatim>\<open>validateChargeback\<close>: the schema compiled by the instance \<^verbatim>\<open>new Ajv()\<close>.\<close>

definition validateChargeback :: "json \<Rightarrow> validate_fn \<Rightarrow> (bool \<times> json) \<times> validate_fn" where
  "validateChargeback = compile Ajv schema"

section \<open>The request handler\<close>

record response =
  status :: nat
  body :: json

text \<open>
  \<^verbatim>\<open>req.body.payload\<close>: reading a property of \<^verbatim>\<open>undefined\<close> or \<^verbatim>\<open>null\<close> throws a
  TypeError; an object gives the member or \<^verbatim>\<open>undefined\<close>; any other value has no such
  property.
\<close>

definition cannot_read :: "string \<Rightarrow> js_error" where
  "cannot_read what =
     TypeError (''Cannot read properties of '' @ what @ '' (reading '' @ quoted ''payload'' @ '')'')"

fun get_payload :: "json option \<Rightarrow> js_error + json option" where
  "get_payload None = Inl (cannot_read ''undefined'')"
| "get_payload (Some JNull) = Inl (cannot_read ''null'')"
| "get_payload (Some (JObj members)) = Inr (map_of members ''payload'')"
| "get_payload (Some d) = Inr None"

fun violation_json :: "violation \<Rightarrow> json" where
  "violation_json e =
     JObj [(''instancePath'', JStr (instancePath e)),
           (''schemaPath'', JStr (schemaPath e)),
           (''keyword'', JStr (keyword e)),
           (''params'', JObj [(fst (params e), JStr (snd (params e)))]),
           (''message'', JStr (message e))]"

fun errors_json :: "violation list option \<Rightarrow> json" where
  "errors_json None = JNull"
| "errors_json (Some es) = JArr (map violation_json es)"

text \<open>
  The handler of \<^verbatim>\<open>POST /webhook\<close>.  Everything runs inside one \<^verbatim>\<open>try\<close>; its
  \<^verbatim>\<open>catch\<close> answers 500 with the error's message.  \<^verbatim>\<open>res.json\<close> without a status
  answers 200.
\<close>

definition caught :: "js_error \<Rightarrow> response" where
  "caught err = \<lparr> status = 500, body = JObj [(''error'', JStr (message_of err))] \<rparr>"

definition webhook :: "json option \<Rightarrow> validate_fn \<Rightarrow> response \<times> validate_fn" where
  "webhook req_body v =
     (case get_payload req_body of
        Inl err \<Rightarrow> (caught err, v)
      | Inr payload \<Rightarrow>
          (case mapStripe payload of
             Inl err \<Rightarrow> (caught err, v)
           | Inr mappedTransactionData \<Rightarrow>
               (case validateChargeback mappedTransactionData v of
                  ((isValid, mapped), v') \<Rightarrow>
                    if \<not> isValid
                    then (\<lparr> status = 400, body = JObj [(''errors'', errors_json (errors v'))] \<rparr>, v')
                    else (\<lparr> status = 200, body = JObj [(''result'', mapped)] \<rparr>, v'))))"

section \<open>The outcomes of the spec, as the transport carries them\<close>

text \<open>
  The spec names three outcomes and their transport form: \<open>Succeeded\<close> is status 200
  with the record under \<open>result\<close>, \<open>Rejected\<close> is status 400 with the violations under
  \<open>errors\<close>, \<open>Failed\<close> is status 500 with the message under \<open>error\<close>.
\<close>

definition Succeeded :: "json \<Rightarrow> response" where
  "Succeeded record = \<lparr> status = 200, body = JObj [(''result'', record)] \<rparr>"

definition Rejected :: "violation list \<Rightarrow> response" where
  "Rejected violations =
     \<lparr> status = 400, body = JObj [(''errors'', JArr (map violation_json violations))] \<rparr>"

definition Failed :: "string \<Rightarrow> response" where
  "Failed msg = \<lparr> status = 500, body = JObj [(''error'', JStr msg)] \<rparr>"

text \<open>
  The spec's schema: all five required fields present, each with its declared type.
\<close>

fun field_ok :: "(string \<times> json) list \<Rightarrow> string \<times> jtype \<Rightarrow> bool" where
  "field_ok members (k, t) = (case map_of members k of None \<Rightarrow> False | Some v \<Rightarrow> has_type v t)"

fun satisfies_schema :: "json \<Rightarrow> bool" where
  "satisfies_schema (JObj members) = list_all (field_ok members) (properties schema)"
| "satisfies_schema d = False"

text \<open>
  The spec's exhaustive list of violations: one per missing required field, in the
  schema's order, then one per present field of the wrong type, in the schema's order.
\<close>

fun mismatch :: "(string \<times> json) list \<Rightarrow> string \<times> jtype \<Rightarrow> violation list" where
  "mismatch members (k, t) =
     (case map_of members k of
        None \<Rightarrow> []
      | Some v \<Rightarrow> if has_type v t then [] else [property_type_error k t])"

fun spec_violations :: "json \<Rightarrow> violation list" where
  "spec_violations (JObj members) =
     map required_error (filter (\<lambda>k. map_of members k = None) (required schema)) @
     concat (map (mismatch members) (properties schema))"
| "spec_violations d = [root_type_error]"




section \<open>Requests used as examples\<close>

text \<open>The compiled validator before its first call.\<close>

definition compiled :: validate_fn where
  "compiled = \<lparr> errors = None \<rparr>"

text \<open>A request body whose \<^verbatim>\<open>payload\<close> member is the given document.\<close>

definition send :: "json \<Rightarrow> json option" where
  "send payload = Some (JObj [(''payload'', payload)])"

definition stripe_dispute :: json where
  "stripe_dispute =
     JObj [(''id'', JStr ''evt_123''),
           (''type'', JStr ''charge.dispute.created''),
           (''data'', JObj [(''object'',
              JObj [(''amount'', JNum 2599),
                    (''currency'', JStr ''usd''),
                    (''reason'', JStr ''fraudulent''),
                    (''charge'', JStr ''ch_98765'')])])]"

definition stripe_record :: json where
  "stripe_record =
     JObj [(''transaction_id'', JStr ''ch_98765''),
           (''reason'', JStr ''fraudulent''),
           (''currency'', JStr ''USD''),
           (''amount'', JNum (2599 / 100)),
           (''provider'', JStr ''stripe'')]"

definition amount_only :: json where
  "amount_only = JObj [(''data'', JObj [(''object'', JObj [(''amount'', JNum 1000)])])]"

definition amount_only_mapped :: json where
  "amount_only_mapped = JObj [(''amount'', JNum 10), (''provider'', JStr ''stripe'')]"

definition numeric_currency :: json where
  "numeric_currency =
     JObj [(''data'', JObj [(''object'',
        JObj [(''amount'', JNum 2599),
              (''currency'', JNum 840),
              (''reason'', JStr ''fraudulent''),
              (''charge'', JStr ''ch_98765'')])])]"

definition amount_as_string :: json where
  "amount_as_string =
     JObj [(''transaction_id'', JStr ''ch_98765''),
           (''reason'', JStr ''fraudulent''),
           (''currency'', JStr ''USD''),
           (''amount'', JStr ''25.99''),
           (''provider'', JStr ''stripe''),
           (''id'', JStr ''dp_12345'')]"

definition infinite_amount :: json where
  "infinite_amount = JObj [(''data'', JObj [(''object'', JObj [(''amount'', JInfinity)])])]"

definition extra_member :: json where
  "extra_member =
     JObj [(''transaction_id'', JStr ''ch_98765''),
           (''reason'', JStr ''fraudulent''),
           (''currency'', JStr ''USD''),
           (''amount'', JNum (2599 / 100)),
           (''provider'', JStr ''stripe''),
           (''id'', JStr ''dp_12345'')]"

definition unknown_provider_request :: "json option" where
  "unknown_provider_request =
     Some (JObj [(''provider'', JStr ''nonexistent''), (''payload'', JObj [])])"

section \<open>Properties of the evaluator and the validator\<close>

lemma map_of_stored:
  "map_of (stored k r @ ms) k' = (if k' = k \<and> r \<noteq> Undefined then result_json r else map_of ms k')"
  by (cases r) (simp_all add: stored_def)

lemma mapStripe_unfold:
  "mapStripe p =
     (case uppercase (evaluatePath [''data'', ''object'', ''currency''] p) of
        Inl err \<Rightarrow> Inl err
      | Inr cur \<Rightarrow>
          (case evaluateNumericExpression (evaluatePath [''data'', ''object'', ''amount''] p) (Value (JNum 100)) of
             Inl err \<Rightarrow> Inl err
           | Inr amt \<Rightarrow>
               Inr (JObj (stored ''transaction_id'' (evaluatePath [''data'', ''object'', ''charge''] p) @
                          stored ''reason'' (evaluatePath [''data'', ''object'', ''reason''] p) @
                          stored ''currency'' cur @ stored ''amount'' amt @
                          [(''provider'', JStr ''stripe'')]))))"
  unfolding mapStripe_def evaluateGroupExpression_def stripeExpression_def
  by (simp add: stored_def split: sum.splits)

lemma first_missing_filter:
  "first_missing ks m = (case filter (\<lambda>k. map_of m k = None) ks of [] \<Rightarrow> None | k # _ \<Rightarrow> Some k)"
  by (induction ks) (auto split: option.splits)

lemma first_mismatch_concat:
  "first_mismatch ps m = (case concat (map (mismatch m) ps) of [] \<Rightarrow> None | e # _ \<Rightarrow> Some e)"
  by (induction ps) (auto split: option.splits)

lemma first_of_both:
  "(case (case rs of [] \<Rightarrow> None | k # _ \<Rightarrow> Some k) of
      Some k \<Rightarrow> Some [f k]
    | None \<Rightarrow> (case (case es of [] \<Rightarrow> None | e # _ \<Rightarrow> Some e) of
                 Some e \<Rightarrow> Some [e]
               | None \<Rightarrow> None)) =
   (case map f rs @ es of [] \<Rightarrow> None | e # _ \<Rightarrow> Some [e])"
  by (cases rs; cases es) simp_all

lemma validate_spec_violations:
  "validate schema d = (case spec_violations d of [] \<Rightarrow> None | e # _ \<Rightarrow> Some [e])"
proof (cases d)
  case (JObj m)
  show ?thesis
    unfolding JObj
    by (simp only: validate.simps spec_violations.simps first_missing_filter
          first_mismatch_concat first_of_both)
qed simp_all

lemma spec_violations_empty: "spec_violations d = [] \<longleftrightarrow> satisfies_schema d"
  by (cases d) (auto simp: schema_def split: option.splits if_splits)

lemma validate_None_iff: "validate schema d = None \<longleftrightarrow> satisfies_schema d"
  unfolding validate_spec_violations spec_violations_empty [symmetric]
  by (simp split: list.splits)

lemma after_validation_Ajv: "after_validation Ajv sch d = d"
  by (cases d) (simp_all add: Ajv_def)

lemma validateChargeback_unfold:
  "validateChargeback d v = ((validate schema d = None, d), v\<lparr> errors := validate schema d \<rparr>)"
  by (simp add: validateChargeback_def compile_def after_validation_Ajv Let_def)

lemma removeAdditional_writes:
  "snd (fst (compile \<lparr> removeAdditional = True \<rparr> schema extra_member v)) = stripe_record"
  by (simp add: compile_def extra_member_def stripe_record_def schema_def listed_def Let_def)

section \<open>Properties of the handler\<close>

lemma outcomes_distinct [simp]:
  "Succeeded r \<noteq> Rejected vs" "Succeeded r \<noteq> Failed m" "Rejected vs \<noteq> Failed m"
  "Rejected vs \<noteq> Succeeded r" "Failed m \<noteq> Succeeded r" "Failed m \<noteq> Rejected vs"
  by (simp_all add: Succeeded_def Rejected_def Failed_def)

lemma Succeeded_inject [simp]: "Succeeded r = Succeeded r' \<longleftrightarrow> r = r'"
  by (simp add: Succeeded_def)

lemma webhook_body_throws:
  "get_payload b = Inl err \<Longrightarrow> webhook b v = (Failed (message_of err), v)"
  by (simp add: webhook_def caught_def Failed_def)

lemma webhook_evaluate_throws:
  "get_payload b = Inr p \<Longrightarrow> mapStripe p = Inl err \<Longrightarrow> webhook b v = (Failed (message_of err), v)"
  by (simp add: webhook_def caught_def Failed_def)

lemma webhook_mapped:
  "get_payload b = Inr p \<Longrightarrow> mapStripe p = Inr d \<Longrightarrow>
   webhook b v =
     (case spec_violations d of [] \<Rightarrow> Succeeded d | e # _ \<Rightarrow> Rejected [e],
      v\<lparr> errors := validate schema d \<rparr>)"
  by (simp add: webhook_def validateChargeback_unfold validate_spec_violations
        Succeeded_def Rejected_def split: list.splits)

lemmas run_defs = evaluatePath_def inputSequence_def stepResults_def stored_def
  toUpperCase_def upper_char_def operand_error_def quotient_def

lemma mapStripe_stripe_dispute: "mapStripe (Some stripe_dispute) = Inr stripe_record"
  by (simp add: mapStripe_unfold stripe_dispute_def stripe_record_def run_defs)

lemma spec_violations_stripe_record: "spec_violations stripe_record = []"
  by (simp add: stripe_record_def schema_def)

lemma webhook_stripe_dispute: "fst (webhook (send stripe_dispute) v) = Succeeded stripe_record"
  by (simp add: webhook_mapped [OF _ mapStripe_stripe_dispute] send_def
        spec_violations_stripe_record)

lemma mapStripe_amount_only: "mapStripe (Some amount_only) = Inr amount_only_mapped"
  by (simp add: mapStripe_unfold amount_only_def amount_only_mapped_def run_defs)

lemma spec_violations_amount_only:
  "spec_violations amount_only_mapped =
     [required_error ''transaction_id'', required_error ''reason'', required_error ''currency'']"
  by (simp add: amount_only_mapped_def schema_def)

lemma webhook_amount_only:
  "fst (webhook (send amount_only) v) = Rejected [required_error ''transaction_id'']"
  by (simp add: webhook_mapped [OF _ mapStripe_amount_only] send_def
        spec_violations_amount_only)


lemma webhook_Succeeded_D:
  assumes "fst (webhook b v) = Succeeded r"
  shows "\<exists>p. get_payload b = Inr p \<and> mapStripe p = Inr r \<and> spec_violations r = []"
proof (cases "get_payload b")
  case (Inl err)
  with assms show ?thesis by (simp add: webhook_body_throws)
next
  case (Inr p)
  show ?thesis
  proof (cases "mapStripe p")
    case (Inl err)
    with Inr assms show ?thesis by (simp add: webhook_evaluate_throws)
  next
    case mapped: (Inr d)
    from assms show ?thesis
      unfolding webhook_mapped [OF Inr mapped]
      using Inr mapped by (cases "spec_violations d") auto
  qed
qed

lemma mapStripe_provider:
  "mapStripe p = Inr d \<Longrightarrow> lookup d ''provider'' = Value (JStr ''stripe'')"
  by (auto simp: mapStripe_unfold map_of_stored simp del: map_of_append
        evaluateNumericExpression.simps split: sum.splits)




lemma mapStripe_numeric_currency: "mapStripe (Some numeric_currency) = Inl T0410"
  by (simp add: mapStripe_unfold numeric_currency_def run_defs)

lemma mapStripe_infinite_amount: "mapStripe (Some infinite_amount) = Inl D1001"
  by (simp add: mapStripe_unfold infinite_amount_def run_defs)

lemma validate_stripe_record: "validate schema stripe_record = None"
  by (simp add: validate_spec_violations spec_violations_stripe_record)

lemma validate_amount_only:
  "validate schema amount_only_mapped = Some [required_error ''transaction_id'']"
  by (simp add: validate_spec_violations spec_violations_amount_only)

lemma webhook_unknown_provider:
  "fst (webhook unknown_provider_request v) = Rejected [required_error ''transaction_id'']"
proof -
  have m: "mapStripe (Some (JObj [])) = Inr (JObj [(''provider'', JStr ''stripe'')])"
    by (simp add: mapStripe_unfold run_defs)
  show ?thesis
    unfolding unknown_provider_request_def
    by (simp add: webhook_mapped [OF _ m] schema_def)
qed

section \<open>The claims\<close>

text \<open>
  C1.  The Stripe dispute of the spec, sent as the payload of a request, is answered
  with the \<open>Succeeded\<close> outcome carrying exactly the normalized record: the charge as
  transaction id, the reason, the currency upper-cased to \<open>USD\<close>, the amount 2599
  divided by 100, and the provider \<open>stripe\<close>.  This holds whatever the validator
  function remembers from earlier calls.
\<close>

theorem stripe_dispute_succeeds:
  "fst (webhook (send stripe_dispute) v) =
     Succeeded (JObj [(''transaction_id'', JStr ''ch_98765''),
                      (''reason'', JStr ''fraudulent''),
                      (''currency'', JStr ''USD''),
                      (''amount'', JNum (2599 / 100)),
                      (''provider'', JStr ''stripe'')])"
  using webhook_stripe_dispute [of v] by (simp add: stripe_record_def)

text \<open>
  C1 at the validator as compiled.
\<close>

theorem stripe_dispute_succeeds_witness:
  "fst (webhook (send stripe_dispute) compiled) =
     Succeeded (JObj [(''transaction_id'', JStr ''ch_98765''),
                      (''reason'', JStr ''fraudulent''),
                      (''currency'', JStr ''USD''),
                      (''amount'', JNum (2599 / 100)),
                      (''provider'', JStr ''stripe'')])"
  by (rule stripe_dispute_succeeds)

text \<open>
  C2, as stated, fails.  For the payload that carries only an amount, the mapped document
  misses three required fields, so the exhaustive list of the spec has three entries;
  the handler answers \<open>Rejected\<close> with one entry, for \<open>transaction_id\<close>.
\<close>

theorem violations_not_exhaustive:
  "fst (webhook (send amount_only) compiled) = Rejected [required_error ''transaction_id''] \<and>
   mapStripe (Some amount_only) = Inr amount_only_mapped \<and>
   spec_violations amount_only_mapped =
     [required_error ''transaction_id'', required_error ''reason'', required_error ''currency'']"
  by (simp add: webhook_amount_only mapStripe_amount_only spec_violations_amount_only)

text \<open>
  C2, amended.  When the mapped document violates the schema, the handler answers
  \<open>Rejected\<close> with exactly one violation: the first of the spec's exhaustive list
  (missing required fields in schema order, then type mismatches in schema order).
\<close>

theorem rejected_reports_first_violation:
  assumes "get_payload b = Inr p" and "mapStripe p = Inr d" and "spec_violations d = e # es"
  shows "fst (webhook b v) = Rejected [e]"
  by (simp add: webhook_mapped [OF assms(1,2)] assms(3))

text \<open>
  C2, amended, at the payload that carries only an amount.
\<close>

theorem rejected_reports_first_violation_witness:
  "get_payload (send amount_only) = Inr (Some amount_only) \<and>
   mapStripe (Some amount_only) = Inr amount_only_mapped \<and>
   spec_violations amount_only_mapped =
     required_error ''transaction_id'' # [required_error ''reason'', required_error ''currency''] \<and>
   fst (webhook (send amount_only) compiled) = Rejected [required_error ''transaction_id'']"
proof -
  have 1: "get_payload (send amount_only) = Inr (Some amount_only)"
    by (simp add: send_def)
  note 2 = mapStripe_amount_only and 3 = spec_violations_amount_only
  from rejected_reports_first_violation [OF 1 2 3, of compiled] 1 2 3 show ?thesis
    by simp
qed

text \<open>
  C3.  Whenever the handler answers \<open>Succeeded\<close>, the record it returns satisfies the
  schema: the five required fields are present, each with its declared type.  A document
  that fails validation is never returned as a success.
\<close>

theorem succeeded_satisfies_schema:
  assumes "fst (webhook b v) = Succeeded r"
  shows "satisfies_schema r"
  using webhook_Succeeded_D [OF assms] by (auto simp: spec_violations_empty)

text \<open>
  C3 at the Stripe dispute.
\<close>

theorem succeeded_satisfies_schema_witness:
  "fst (webhook (send stripe_dispute) compiled) = Succeeded stripe_record \<and>
   satisfies_schema stripe_record"
  using succeeded_satisfies_schema [OF webhook_stripe_dispute [of compiled]]
    webhook_stripe_dispute [of compiled]
  by simp

text \<open>
  C4, as stated, fails.  The handler takes no provider key and has no registry to
  resolve one in.  A request that names the provider \<open>nonexistent\<close> beside an empty
  payload is mapped with the Stripe expression like any other and answered
  \<open>Rejected\<close> for the missing \<open>transaction_id\<close>, not \<open>Failed\<close>.
\<close>

theorem unknown_provider_is_not_failed:
  "fst (webhook unknown_provider_request compiled) = Rejected [required_error ''transaction_id'']"
  by (rule webhook_unknown_provider)

text \<open>
  C4, amended.  A \<open>provider\<close> member of the request body, whatever its value, does
  not change the answer: the payload is mapped with the Stripe expression.  A request
  whose body is an object is answered \<open>Failed\<close> only when the evaluation of that
  expression throws, and then with the message of that error.
\<close>

theorem provider_member_is_ignored:
  "fst (webhook (Some (JObj ((''provider'', key) # members))) v) =
     fst (webhook (Some (JObj members)) v) \<and>
   (\<forall>msg. fst (webhook (Some (JObj members)) v) = Failed msg \<longrightarrow>
      (\<exists>err. mapStripe (map_of members ''payload'') = Inl err \<and> msg = message_of err))"
proof -
  have "fst (webhook (Some (JObj members)) v) = Failed msg \<Longrightarrow>
      \<exists>err. mapStripe (map_of members ''payload'') = Inl err \<and> msg = message_of err" for msg
  proof (cases "mapStripe (map_of members ''payload'')")
    case (Inl err)
    assume "fst (webhook (Some (JObj members)) v) = Failed msg"
    with Inl show ?thesis
      by (simp add: webhook_evaluate_throws [OF _ Inl] Failed_def)
  next
    case (Inr d)
    assume "fst (webhook (Some (JObj members)) v) = Failed msg"
    then have False
      unfolding webhook_mapped [OF _ Inr, of "Some (JObj members)", simplified]
      by (cases "spec_violations d") simp_all
    then show ?thesis ..
  qed
  moreover have "fst (webhook (Some (JObj ((''provider'', key) # members))) v) =
     fst (webhook (Some (JObj members)) v)"
    by (simp add: webhook_def)
  ultimately show ?thesis by blast
qed

text \<open>
  C4, amended, at a request that names the provider \<open>nonexistent\<close> and carries a
  dispute with a numeric currency: the failure is the evaluation error of
  \<^verbatim>\<open>$uppercase\<close>.
\<close>

theorem provider_member_is_ignored_witness:
  "fst (webhook (Some (JObj [(''provider'', JStr ''nonexistent''), (''payload'', numeric_currency)])) compiled) =
     fst (webhook (send numeric_currency) compiled) \<and>
   fst (webhook (send numeric_currency) compiled) = Failed (message_of T0410) \<and>
   (\<exists>err. mapStripe (Some numeric_currency) = Inl err \<and> message_of T0410 = message_of err)"
proof -
  have f: "fst (webhook (send numeric_currency) compiled) = Failed (message_of T0410)"
    by (simp add: send_def webhook_evaluate_throws [OF _ mapStripe_numeric_currency])
  from provider_member_is_ignored
    [of "JStr ''nonexistent''" "[(''payload'', numeric_currency)]" compiled] f
  show ?thesis
    by (simp add: send_def)
qed

text \<open>
  C5.  Every request falls under one of four cases, and each case has its outcome in its
  transport form.  When reading the payload off the body throws, or the evaluation of the
  mapping throws, the error is caught and the answer is \<open>Failed\<close>: status 500 with the
  error's message under \<open>error\<close>.  When the mapped document is valid the answer is
  \<open>Succeeded\<close>: status 200 with that document under \<open>result\<close>.  When it is invalid the
  answer is \<open>Rejected\<close>: status 400 with the validator's violations under \<open>errors\<close>,
  each an object with the members \<open>instancePath\<close> and \<open>message\<close>.
\<close>

theorem webhook_answers_tagged:
  "((\<exists>thrown. get_payload b = Inl thrown) \<or>
    (\<exists>p err. get_payload b = Inr p \<and> mapStripe p = Inl err) \<or>
    (\<exists>p d. get_payload b = Inr p \<and> mapStripe p = Inr d \<and> validate schema d = None) \<or>
    (\<exists>p d es. get_payload b = Inr p \<and> mapStripe p = Inr d \<and> validate schema d = Some es)) \<and>
   (get_payload b = Inl thrown \<longrightarrow>
      fst (webhook b v) = Failed (message_of thrown) \<and>
      status (fst (webhook b v)) = 500 \<and>
      body (fst (webhook b v)) = JObj [(''error'', JStr (message_of thrown))]) \<and>
   (get_payload b = Inr p \<and> mapStripe p = Inl err \<longrightarrow>
      fst (webhook b v) = Failed (message_of err) \<and>
      status (fst (webhook b v)) = 500 \<and>
      body (fst (webhook b v)) = JObj [(''error'', JStr (message_of err))]) \<and>
   (get_payload b = Inr p \<and> mapStripe p = Inr d \<and> validate schema d = None \<longrightarrow>
      fst (webhook b v) = Succeeded d \<and>
      status (fst (webhook b v)) = 200 \<and>
      body (fst (webhook b v)) = JObj [(''result'', d)]) \<and>
   (get_payload b = Inr p \<and> mapStripe p = Inr d \<and> validate schema d = Some es \<longrightarrow>
      fst (webhook b v) = Rejected es \<and>
      status (fst (webhook b v)) = 400 \<and>
      body (fst (webhook b v)) = JObj [(''errors'', JArr (map violation_json es))] \<and>
      list_all (\<lambda>e. lookup (violation_json e) ''instancePath'' = Value (JStr (instancePath e)) \<and>
                     lookup (violation_json e) ''message'' = Value (JStr (message e))) es)"
proof -
  have cases: "(\<exists>thrown. get_payload b = Inl thrown) \<or>
    (\<exists>p err. get_payload b = Inr p \<and> mapStripe p = Inl err) \<or>
    (\<exists>p d. get_payload b = Inr p \<and> mapStripe p = Inr d \<and> validate schema d = None) \<or>
    (\<exists>p d es. get_payload b = Inr p \<and> mapStripe p = Inr d \<and> validate schema d = Some es)"
  proof (cases "get_payload b")
    case (Inl thrown)
    then show ?thesis by blast
  next
    case (Inr p)
    then show ?thesis
      by (cases "mapStripe p"; cases "validate schema (projr (mapStripe p))") auto
  qed
  have body_throws: "fst (webhook b v) = Failed (message_of thrown) \<and>
      status (fst (webhook b v)) = 500 \<and>
      body (fst (webhook b v)) = JObj [(''error'', JStr (message_of thrown))]"
    if "get_payload b = Inl thrown"
    using that by (simp add: webhook_def caught_def Failed_def)
  have evaluate_throws: "fst (webhook b v) = Failed (message_of err) \<and>
      status (fst (webhook b v)) = 500 \<and>
      body (fst (webhook b v)) = JObj [(''error'', JStr (message_of err))]"
    if "get_payload b = Inr p" "mapStripe p = Inl err"
    using that by (simp add: webhook_def caught_def Failed_def)
  have valid: "fst (webhook b v) = Succeeded d \<and>
      status (fst (webhook b v)) = 200 \<and>
      body (fst (webhook b v)) = JObj [(''result'', d)]"
    if "get_payload b = Inr p" "mapStripe p = Inr d" "validate schema d = None"
    using that by (simp add: webhook_def validateChargeback_unfold Succeeded_def)
  have invalid: "fst (webhook b v) = Rejected es \<and>
      status (fst (webhook b v)) = 400 \<and>
      body (fst (webhook b v)) = JObj [(''errors'', JArr (map violation_json es))] \<and>
      list_all (\<lambda>e. lookup (violation_json e) ''instancePath'' = Value (JStr (instancePath e)) \<and>
                     lookup (violation_json e) ''message'' = Value (JStr (message e))) es"
    if "get_payload b = Inr p" "mapStripe p = Inr d" "validate schema d = Some es"
    using that by (simp add: webhook_def validateChargeback_unfold Rejected_def list_all_iff)
  from cases body_throws evaluate_throws valid invalid show ?thesis
    by blast
qed

text \<open>
  C5 at four requests, one for each case: no body at all, a dispute with a numeric
  currency, the Stripe dispute of the spec, and the payload that carries only an amount.
\<close>

theorem webhook_answers_tagged_witness:
  "get_payload None = Inl (cannot_read ''undefined'') \<and>
   fst (webhook None compiled) = Failed (message_of (cannot_read ''undefined'')) \<and>
   status (fst (webhook None compiled)) = 500 \<and>
   get_payload (send numeric_currency) = Inr (Some numeric_currency) \<and>
   mapStripe (Some numeric_currency) = Inl T0410 \<and>
   fst (webhook (send numeric_currency) compiled) = Failed (message_of T0410) \<and>
   status (fst (webhook (send numeric_currency) compiled)) = 500 \<and>
   get_payload (send stripe_dispute) = Inr (Some stripe_dispute) \<and>
   mapStripe (Some stripe_dispute) = Inr stripe_record \<and>
   validate schema stripe_record = None \<and>
   fst (webhook (send stripe_dispute) compiled) = Succeeded stripe_record \<and>
   status (fst (webhook (send stripe_dispute) compiled)) = 200 \<and>
   body (fst (webhook (send stripe_dispute) compiled)) = JObj [(''result'', stripe_record)] \<and>
   get_payload (send amount_only) = Inr (Some amount_only) \<and>
   mapStripe (Some amount_only) = Inr amount_only_mapped \<and>
   validate schema amount_only_mapped = Some [required_error ''transaction_id''] \<and>
   fst (webhook (send amount_only) compiled) = Rejected [required_error ''transaction_id''] \<and>
   status (fst (webhook (send amount_only) compiled)) = 400"
proof -
  have 1: "get_payload None = Inl (cannot_read ''undefined'')"
    by simp
  have 2: "get_payload (send numeric_currency) = Inr (Some numeric_currency)"
    by (simp add: send_def)
  have 3: "get_payload (send stripe_dispute) = Inr (Some stripe_dispute)"
    by (simp add: send_def)
  have 4: "get_payload (send amount_only) = Inr (Some amount_only)"
    by (simp add: send_def)
  note a = webhook_answers_tagged
    [where b = None and v = compiled and thrown = "cannot_read ''undefined''"]
  note b = webhook_answers_tagged
    [where b = "send numeric_currency" and v = compiled and p = "Some numeric_currency"
       and err = T0410]
  note c = webhook_answers_tagged
    [where b = "send stripe_dispute" and v = compiled and p = "Some stripe_dispute"
       and d = stripe_record]
  note d = webhook_answers_tagged
    [where b = "send amount_only" and v = compiled and p = "Some amount_only"
       and d = amount_only_mapped and es = "[required_error ''transaction_id'']"]
  from a 1 have "fst (webhook None compiled) = Failed (message_of (cannot_read ''undefined'')) \<and>
      status (fst (webhook None compiled)) = 500"
    by blast
  moreover from b 2 mapStripe_numeric_currency
  have "fst (webhook (send numeric_currency) compiled) = Failed (message_of T0410) \<and>
      status (fst (webhook (send numeric_currency) compiled)) = 500"
    by blast
  moreover from c 3 mapStripe_stripe_dispute validate_stripe_record
  have "fst (webhook (send stripe_dispute) compiled) = Succeeded stripe_record \<and>
      status (fst (webhook (send stripe_dispute) compiled)) = 200 \<and>
      body (fst (webhook (send stripe_dispute) compiled)) = JObj [(''result'', stripe_record)]"
    by blast
  moreover from d 4 mapStripe_amount_only validate_amount_only
  have "fst (webhook (send amount_only) compiled) = Rejected [required_error ''transaction_id''] \<and>
      status (fst (webhook (send amount_only) compiled)) = 400"
    by blast
  ultimately show ?thesis
    using 1 2 3 4 mapStripe_numeric_currency mapStripe_stripe_dispute validate_stripe_record
      mapStripe_amount_only validate_amount_only
    by blast
qed





text \<open>
  C8.  The answer to a request is a function of the request alone: it is the same
  whatever the validator function remembers from earlier calls, so a second call with the
  same body, made after the first, gets the same answer.  The verdict of the validator
  and the document it returns do not depend on what it remembers either.
\<close>

theorem webhook_deterministic:
  "fst (webhook b v) = fst (webhook b v') \<and>
   fst (webhook b (snd (webhook b v))) = fst (webhook b v) \<and>
   fst (validateChargeback d v) = fst (validateChargeback d v')"
proof -
  have "fst (webhook b u) = fst (webhook b u')" for u u'
    by (simp add: webhook_def validateChargeback_unfold split: sum.splits)
  moreover have "fst (validateChargeback d v) = fst (validateChargeback d v')"
    by (simp add: validateChargeback_unfold)
  ultimately show ?thesis by simp
qed

text \<open>
  C8 at the payload that carries only an amount and at the record of the Stripe dispute.
\<close>

theorem webhook_deterministic_witness:
  "fst (webhook (send amount_only) compiled) =
     fst (webhook (send amount_only) (compiled\<lparr> errors := Some [] \<rparr>)) \<and>
   fst (webhook (send amount_only) (snd (webhook (send amount_only) compiled))) =
     fst (webhook (send amount_only) compiled) \<and>
   fst (validateChargeback stripe_record compiled) =
     fst (validateChargeback stripe_record (compiled\<lparr> errors := Some [] \<rparr>))"
  by (rule webhook_deterministic)

text \<open>
  C9.  The validator compiled by \<^verbatim>\<open>new Ajv()\<close> leaves the document as it was, additional
  members included, and it does not coerce: its verdict is that the document, as given,
  has the five fields with their declared types.
\<close>

theorem validateChargeback_leaves_document:
  "snd (fst (validateChargeback d v)) = d \<and>
   fst (fst (validateChargeback d v)) = satisfies_schema d"
  by (simp add: validateChargeback_unfold validate_None_iff)

text \<open>
  C9 at a record with an additional member whose amount is the string \<open>25.99\<close>: the
  record is left as it was, and it is not accepted.
\<close>

theorem validateChargeback_leaves_document_witness:
  "snd (fst (validateChargeback amount_as_string compiled)) = amount_as_string \<and>
   \<not> fst (fst (validateChargeback amount_as_string compiled)) \<and>
   \<not> satisfies_schema amount_as_string \<and>
   errors (snd (validateChargeback amount_as_string compiled)) =
     Some [property_type_error ''amount'' TNumber]"
proof -
  have "\<not> satisfies_schema amount_as_string"
    by (simp add: amount_as_string_def schema_def)
  moreover have "errors (snd (validateChargeback amount_as_string compiled)) =
      Some [property_type_error ''amount'' TNumber]"
    by (simp add: validateChargeback_unfold amount_as_string_def schema_def)
  ultimately show ?thesis
    using validateChargeback_leaves_document [of amount_as_string compiled] by simp
qed

text \<open>
  C10.  The handler has no provider dispatch: a record returned as \<open>Succeeded\<close> is
  what the Stripe mapping made of the request's payload, and its \<open>provider\<close> field is
  the string \<open>stripe\<close>.
\<close>

theorem succeeded_provider_is_stripe:
  assumes "fst (webhook b v) = Succeeded r"
  shows "(\<exists>p. get_payload b = Inr p \<and> mapStripe p = Inr r) \<and>
         lookup r ''provider'' = Value (JStr ''stripe'')"
  using webhook_Succeeded_D [OF assms] by (auto dest: mapStripe_provider)

text \<open>
  C10 at the Stripe dispute.
\<close>

theorem succeeded_provider_is_stripe_witness:
  "fst (webhook (send stripe_dispute) compiled) = Succeeded stripe_record \<and>
   (\<exists>p. get_payload (send stripe_dispute) = Inr p \<and> mapStripe p = Inr stripe_record) \<and>
   lookup stripe_record ''provider'' = Value (JStr ''stripe'')"
  using succeeded_provider_is_stripe [OF webhook_stripe_dispute [of compiled]]
    webhook_stripe_dispute [of compiled]
  by simp


end
